theory Spec2Isabelle
  imports Main "HOL-Library.Word" "HOL-Library.List_Lexorder" "HOL-Library.Char_ord"
begin

unbundle bit_operations_syntax

section \<open>Go standard library functions the usage package calls\<close>

text \<open>
  The usage package (\<^verbatim>\<open>internal/usage/database_plugin.go\<close>,
  \<^verbatim>\<open>internal/usage/otlp_plugin.go\<close>) calls a few functions of the Go standard
  library. Those whose result a property depends on are modelled here as executable
  functions: \<^verbatim>\<open>crypto/sha256.Sum256\<close> (FIPS 180-4), \<^verbatim>\<open>encoding/hex.EncodeToString\<close>
  and \<^verbatim>\<open>time.Time.Format("2006-01-02")\<close>. The others (\<^verbatim>\<open>filepath.Clean\<close>,
  \<^verbatim>\<open>strings.TrimSpace\<close>, \<^verbatim>\<open>json.Marshal\<close>, the HTTP client, the file system) are
  inputs of the model: the functions below take them as arguments, and the theorems hold
  for every value of them.
\<close>

subsection \<open>crypto/sha256 and encoding/hex\<close>

type_synonym byte = "8 word"

text \<open>
  The constants of SHA-256 are the first 32 bits of the fractional parts of the cube
  roots (for the round constants) and of the square roots (for the initial hash value)
  of the first prime numbers. \<open>iroot k n\<close> is the integer part of the \<open>k\<close>-th root of
  \<open>n\<close>, for \<open>n\<close> below \<open>2 ^ (36 * k)\<close>, found bit by bit from the top.
\<close>

definition iroot :: "nat \<Rightarrow> int \<Rightarrow> int" where
  "iroot k n = foldl (\<lambda>r i. if (r + 2 ^ i) ^ k \<le> n then r + 2 ^ i else r) 0 (rev [0..<36])"

definition is_prime :: "nat \<Rightarrow> bool" where
  "is_prime p = (2 \<le> p \<and> list_all (\<lambda>d. \<not> d dvd p) [2..<p])"

definition first_primes :: "nat \<Rightarrow> nat list" where
  "first_primes n = take n (filter is_prime [2..<312])"

definition root_bits :: "nat \<Rightarrow> nat \<Rightarrow> 32 word" where
  "root_bits k p = of_int (iroot k (int p * 2 ^ (32 * k)))"

definition K256 :: "32 word list" where
  "K256 = map (root_bits 3) (first_primes 64)"

definition rotr32 :: "nat \<Rightarrow> 32 word \<Rightarrow> 32 word" where
  "rotr32 n x = drop_bit n x OR push_bit (32 - n) x"

definition bsig0 :: "32 word \<Rightarrow> 32 word" where
  "bsig0 x = rotr32 2 x XOR rotr32 13 x XOR rotr32 22 x"

definition bsig1 :: "32 word \<Rightarrow> 32 word" where
  "bsig1 x = rotr32 6 x XOR rotr32 11 x XOR rotr32 25 x"

definition ssig0 :: "32 word \<Rightarrow> 32 word" where
  "ssig0 x = rotr32 7 x XOR rotr32 18 x XOR drop_bit 3 x"

definition ssig1 :: "32 word \<Rightarrow> 32 word" where
  "ssig1 x = rotr32 17 x XOR rotr32 19 x XOR drop_bit 10 x"

definition be32 :: "byte list \<Rightarrow> 32 word" where
  "be32 bs = foldl (\<lambda>acc b. push_bit 8 acc OR ucast b) 0 bs"

definition bytes32 :: "32 word \<Rightarrow> byte list" where
  "bytes32 w = [ucast (drop_bit 24 w), ucast (drop_bit 16 w), ucast (drop_bit 8 w), ucast w]"

definition bytes64 :: "64 word \<Rightarrow> byte list" where
  "bytes64 w = map (\<lambda>i. ucast (drop_bit (8 * (7 - i)) w)) [0..<8]"

definition sha_pad :: "byte list \<Rightarrow> byte list" where
  "sha_pad m = m @ [0x80] @ replicate ((119 - length m mod 64) mod 64) 0
                 @ bytes64 (of_nat (8 * length m))"

fun chunks :: "nat \<Rightarrow> 'a list \<Rightarrow> 'a list list" where
  "chunks n xs = (if n = 0 \<or> xs = [] then [] else take n xs # chunks n (drop n xs))"

fun schedule :: "nat \<Rightarrow> 32 word list \<Rightarrow> 32 word list" where
  "schedule 0 w = w"
| "schedule (Suc n) w =
     (let t = length w
      in schedule n
           (w @ [ssig1 (w ! (t - 2)) + w ! (t - 7) + ssig0 (w ! (t - 15)) + w ! (t - 16)]))"

type_synonym sha_state =
  "32 word \<times> 32 word \<times> 32 word \<times> 32 word \<times> 32 word \<times> 32 word \<times> 32 word \<times> 32 word"

fun sha_round :: "sha_state \<Rightarrow> 32 word \<times> 32 word \<Rightarrow> sha_state" where
  "sha_round (a, b, c, d, e, f, g, h) (k, w) =
     (let t1 = h + bsig1 e + ((e AND f) XOR (NOT e AND g)) + k + w;
          t2 = bsig0 a + ((a AND b) XOR (a AND c) XOR (b AND c))
      in (t1 + t2, a, b, c, d + t1, e, f, g))"

fun sha_add :: "sha_state \<Rightarrow> sha_state \<Rightarrow> sha_state" where
  "sha_add (a, b, c, d, e, f, g, h) (a', b', c', d', e', f', g', h') =
     (a + a', b + b', c + c', d + d', e + e', f + f', g + g', h + h')"

definition sha_block :: "sha_state \<Rightarrow> byte list \<Rightarrow> sha_state" where
  "sha_block st blk =
     sha_add st (foldl sha_round st (zip K256 (schedule 48 (map be32 (chunks 4 blk)))))"

definition sha_init :: sha_state where
  "sha_init =
     (case map (root_bits 2) (first_primes 8) of
        [a, b, c, d, e, f, g, h] \<Rightarrow> (a, b, c, d, e, f, g, h)
      | _ \<Rightarrow> (0, 0, 0, 0, 0, 0, 0, 0))"

fun sha_out :: "sha_state \<Rightarrow> byte list" where
  "sha_out (a, b, c, d, e, f, g, h) =
     bytes32 a @ bytes32 b @ bytes32 c @ bytes32 d @ bytes32 e @ bytes32 f @ bytes32 g @ bytes32 h"

text \<open>\<^verbatim>\<open>sha256.Sum256\<close>: the 32 bytes of the SHA-256 digest.\<close>

definition Sum256 :: "byte list \<Rightarrow> byte list" where
  "Sum256 m = sha_out (foldl sha_block sha_init (chunks 64 (sha_pad m)))"

text \<open>\<^verbatim>\<open>[]byte(value)\<close>: a Go string is its bytes; so is a HOL \<^typ>\<open>string\<close>.\<close>

definition bytes_of :: "string \<Rightarrow> byte list" where
  "bytes_of s = map (\<lambda>c. of_nat (of_char c)) s"

definition hextable :: string where
  "hextable = ''0123456789abcdef''"

text \<open>\<^verbatim>\<open>hex.EncodeToString\<close>: two lower-case hexadecimal digits per byte.\<close>

definition EncodeToString :: "byte list \<Rightarrow> string" where
  "EncodeToString bs =
     concat (map (\<lambda>b. [hextable ! unat (drop_bit 4 b), hextable ! unat (b AND 0x0f)]) bs)"

subsection \<open>time\<close>

text \<open>
  A \<^verbatim>\<open>time.Time\<close> is modelled by what the code observes of it: the instant
  (nanoseconds since the Unix epoch, an unbounded \<^typ>\<open>int\<close>) and the offset of its
  location from UTC in seconds, which decides the calendar day \<^verbatim>\<open>Format\<close> prints.
  \<^verbatim>\<open>Time.IsZero\<close> is true of the instant January 1, year 1, 00:00:00 UTC, in any
  location.
\<close>

record Time =
  instant :: int
  offset :: int

definition zeroInstant :: int where
  "zeroInstant = - 62135596800 * 1000000000"

definition IsZero :: "Time \<Rightarrow> bool" where
  "IsZero t = (instant t = zeroInstant)"

definition UTC :: "Time \<Rightarrow> Time" where
  "UTC t = t\<lparr>offset := 0\<rparr>"

text \<open>A \<^verbatim>\<open>time.Duration\<close> is an \<^verbatim>\<open>int64\<close> of nanoseconds; \<^verbatim>\<open>Time.Add\<close> moves the instant.\<close>

definition Hour :: "64 word" where
  "Hour = 3600000000000"

definition Add :: "Time \<Rightarrow> 64 word \<Rightarrow> Time" where
  "Add t d = t\<lparr>instant := instant t + sint d\<rparr>"

fun digits :: "nat \<Rightarrow> string" where
  "digits n =
     (if n < 10 then [''0123456789'' ! n]
      else digits (n div 10) @ [''0123456789'' ! (n mod 10)])"

declare digits.simps [simp del]

text \<open>\<^verbatim>\<open>appendInt\<close> of package time: a sign, then the decimal digits padded with zeros.\<close>

definition appendInt :: "int \<Rightarrow> nat \<Rightarrow> string" where
  "appendInt x width =
     (let ds = digits (nat \<bar>x\<bar>)
      in (if x < 0 then ''-'' else '''') @ replicate (width - length ds) CHR ''0'' @ ds)"

text \<open>The civil date (year, month, day) of a day number counted from 1970-01-01.\<close>

definition civil :: "int \<Rightarrow> int \<times> int \<times> int" where
  "civil days =
     (let z = days + 719468;
          era = z div 146097;
          doe = z - era * 146097;
          yoe = (doe - doe div 1460 + doe div 36524 - doe div 146096) div 365;
          doy = doe - (365 * yoe + yoe div 4 - yoe div 100);
          mp = (5 * doy + 2) div 153;
          d = doy - (153 * mp + 2) div 5 + 1;
          m = (if mp < 10 then mp + 3 else mp - 9);
          y = yoe + era * 400
      in (if m \<le> 2 then y + 1 else y, m, d))"

text \<open>\<^verbatim>\<open>t.Format("2006-01-02")\<close>: the calendar day of the instant in the time's location.\<close>

definition formatDay :: "Time \<Rightarrow> string" where
  "formatDay t =
     (case civil ((instant t div 1000000000 + offset t) div 86400) of
        (y, m, d) \<Rightarrow> appendInt y 4 @ ''-'' @ appendInt m 2 @ ''-'' @ appendInt d 2)"

subsection \<open>path/filepath\<close>

text \<open>
  \<^verbatim>\<open>filepath.Clean\<close> depends on the platform, so the functions that call it take it as
  an argument. \<open>Clean_posix\<close> is its behaviour where the separator is the slash: empty and
  \<^verbatim>\<open>.\<close> elements are dropped, a \<^verbatim>\<open>..\<close> removes the element before it (or is dropped at
  the root, or kept at the front of a relative path), and the empty result is \<^verbatim>\<open>.\<close>.
\<close>

fun splitOn :: "char \<Rightarrow> string \<Rightarrow> string list" where
  "splitOn c [] = [[]]"
| "splitOn c (x # xs) =
     (if x = c then [] # splitOn c xs
      else (case splitOn c xs of [] \<Rightarrow> [[x]] | y # ys \<Rightarrow> (x # y) # ys))"

fun cleanElems :: "bool \<Rightarrow> string list \<Rightarrow> string list \<Rightarrow> string list" where
  "cleanElems rooted out [] = rev out"
| "cleanElems rooted out (e # es) =
     (if e = '''' \<or> e = ''.'' then cleanElems rooted out es
      else if e = ''..'' then
        (if out \<noteq> [] \<and> hd out \<noteq> ''..'' then cleanElems rooted (tl out) es
         else if \<not> rooted then cleanElems rooted (''..'' # out) es
         else cleanElems rooted out es)
      else cleanElems rooted (e # out) es)"

fun joinPath :: "string list \<Rightarrow> string" where
  "joinPath [] = ''''"
| "joinPath [e] = e"
| "joinPath (e # es) = e @ ''/'' @ joinPath es"

definition Clean_posix :: "string \<Rightarrow> string" where
  "Clean_posix path =
     (if path = '''' then ''.''
      else (let rooted = (hd path = CHR ''/'');
                out = (if rooted then ''/'' else '''')
                        @ joinPath (cleanElems rooted [] (splitOn CHR ''/'' path))
            in if out = '''' then ''.'' else out))"

section \<open>The usage record and the request context\<close>

text \<open>
  \<^verbatim>\<open>coreusage.Record\<close> and \<^verbatim>\<open>coreusage.Detail\<close> are declared in the SDK; the fields
  are those the plugins read. The token counts are \<^verbatim>\<open>int64\<close>, the auth index is
  \<^verbatim>\<open>uint64\<close>.
\<close>

record Detail =
  InputTokens :: "64 word"
  OutputTokens :: "64 word"
  ReasoningTokens :: "64 word"
  CachedTokens :: "64 word"
  TotalTokens :: "64 word"

record Record =
  Provider :: string
  Model :: string
  APIKey :: string
  AuthID :: string
  AuthIndex :: "64 word"
  Source :: string
  RequestedAt :: Time
  Failed :: bool
  Detail :: Detail

text \<open>
  The plugins read the value stored under the key \<^verbatim>\<open>"gin"\<close> of the context and use it
  when it is a non-nil \<^verbatim>\<open>*gin.Context\<close>. Of a gin context they read the keys set by the
  serving layer and the status of the response writer. \<open>Context None\<close> is a context
  whose \<^verbatim>\<open>"gin"\<close> value is absent, of another type, or a nil pointer (the code takes the
  same branch for the three); \<open>Writer = None\<close> is a nil \<^verbatim>\<open>Writer\<close>.
\<close>

datatype anyval = StringVal string | OtherVal

record ginContext =
  Keys :: "string \<Rightarrow> anyval option"
  Writer :: "int option"

datatype "context" = NilContext | Context "ginContext option"

text \<open>
  What a call does besides returning: it can panic (a nil dereference, closing a closed
  channel), and a channel operation can block.
\<close>

datatype 'a outcome = Panics | Blocks | Returns 'a

section \<open>The database plugin (\<^verbatim>\<open>database_plugin.go\<close>)\<close>

record DatabaseOptions =
  Enabled :: bool
  Path :: string
  RetentionDays :: "64 word"

text \<open>
  \<^verbatim>\<open>TokenStats\<close> and \<^verbatim>\<open>normaliseDetail\<close> are declared in another file of the package;
  \<^verbatim>\<open>HandleUsage\<close> below takes \<^verbatim>\<open>normaliseDetail\<close> as an argument.
\<close>

record TokenStats =
  InputTokens :: "64 word"
  OutputTokens :: "64 word"
  ReasoningTokens :: "64 word"
  CachedTokens :: "64 word"
  TotalTokens :: "64 word"

record dbRecord =
  Timestamp :: Time
  Provider :: string
  Model :: string
  CredentialLabel :: string
  CredentialFingerprint :: string
  APIKeyHash :: string
  AuthID :: string
  AuthIndex :: "64 word"
  Source :: string
  StatusCode :: int
  Failed :: bool
  RateLimited :: bool
  Tokens :: TokenStats

datatype error =
    ErrStopped          \<comment> \<open>\<^verbatim>\<open>usage: database store stopped\<close>\<close>
  | ErrPathEmpty        \<comment> \<open>\<^verbatim>\<open>usage: database path is empty\<close>\<close>
  | ErrMkdir            \<comment> \<open>\<^verbatim>\<open>usage: mkdir failed\<close>\<close>
  | ErrOpen             \<comment> \<open>\<^verbatim>\<open>usage: open sqlite\<close>\<close>
  | ErrSchema           \<comment> \<open>\<^verbatim>\<open>usage: apply schema\<close>\<close>
  | ErrBeginTx
  | ErrExec
  | ErrCommit

subsection \<open>Options\<close>

definition normalizeDatabaseOptions :: "(string \<Rightarrow> string) \<Rightarrow> DatabaseOptions \<Rightarrow> DatabaseOptions" where
  "normalizeDatabaseOptions Clean opts =
     (let opts1 = (if sint (RetentionDays opts) \<le> 0 then opts\<lparr>RetentionDays := 14\<rparr> else opts);
          opts2 = (if Path opts1 \<noteq> '''' then opts1\<lparr>Path := Clean (Path opts1)\<rparr> else opts1)
      in opts2)"

text \<open>The arguments are pointers; \<open>None\<close> is the nil pointer.\<close>

definition configsEqual :: "DatabaseOptions option \<Rightarrow> DatabaseOptions option \<Rightarrow> bool" where
  "configsEqual a b =
     (case (a, b) of
        (Some x, Some y) \<Rightarrow>
          Enabled x = Enabled y \<and> Path x = Path y \<and> RetentionDays x = RetentionDays y
      | _ \<Rightarrow> False)"

subsection \<open>Deriving the stored record\<close>

definition resolveStatusCode :: "context \<Rightarrow> int outcome" where
  "resolveStatusCode ctx =
     (case ctx of
        NilContext \<Rightarrow> Returns 0
      | Context None \<Rightarrow> Returns 0
      | Context (Some ginCtx) \<Rightarrow>
          (case Writer ginCtx of None \<Rightarrow> Panics | Some status \<Rightarrow> Returns status))"

definition credentialLabel :: "Record \<Rightarrow> string" where
  "credentialLabel record =
     (if Record.AuthID record \<noteq> '''' then Record.AuthID record
      else if Record.Source record \<noteq> '''' then Record.Source record
      else if Record.Provider record \<noteq> '''' then Record.Provider record
      else if APIKey record \<noteq> '''' then ''api-key''
      else ''unknown'')"

definition fingerprint :: "string \<Rightarrow> string" where
  "fingerprint v = (if v = '''' then '''' else EncodeToString (Sum256 (bytes_of v)))"

definition credentialFingerprint :: "Record \<Rightarrow> string" where
  "credentialFingerprint record =
     (if Record.AuthID record \<noteq> '''' then fingerprint (Record.AuthID record)
      else if Record.Source record \<noteq> '''' then fingerprint (Record.Source record)
      else if APIKey record \<noteq> '''' then fingerprint (APIKey record)
      else if Record.Provider record \<noteq> '''' then fingerprint (Record.Provider record)
      else fingerprint ''unknown'')"

definition StatusTooManyRequests :: int where
  "StatusTooManyRequests = 429"

text \<open>
  The \<^verbatim>\<open>dbRecord\<close> literal of \<^verbatim>\<open>HandleUsage\<close>. \<open>now\<close> is what \<^verbatim>\<open>time.Now()\<close> returns,
  \<open>status\<close> what \<^verbatim>\<open>resolveStatusCode(ctx)\<close> returned.
\<close>

definition HandleUsage_dbRec ::
  "(Detail \<Rightarrow> TokenStats) \<Rightarrow> Time \<Rightarrow> int \<Rightarrow> Record \<Rightarrow> dbRecord" where
  "HandleUsage_dbRec normaliseDetail now status record =
     (let detail = normaliseDetail (Detail record);
          timestamp = (if IsZero (RequestedAt record) then now else RequestedAt record);
          rateLimited = (status = StatusTooManyRequests);
          apiKeyHash = fingerprint (APIKey record)
      in \<lparr>Timestamp = UTC timestamp,
          Provider = Record.Provider record,
          Model = Record.Model record,
          CredentialLabel = credentialLabel record,
          CredentialFingerprint = credentialFingerprint record,
          APIKeyHash = apiKeyHash,
          AuthID = Record.AuthID record,
          AuthIndex = Record.AuthIndex record,
          Source = Record.Source record,
          StatusCode = status,
          Failed = Record.Failed record,
          RateLimited = rateLimited,
          Tokens = detail\<rparr>)"

subsection \<open>The database\<close>

text \<open>
  The two tables of \<^verbatim>\<open>applyUsageSchema\<close>. A row of \<^verbatim>\<open>usage_requests\<close> has the columns of
  the \<^verbatim>\<open>CREATE TABLE\<close> statement. \<^verbatim>\<open>usage_daily\<close> has the primary key (day, provider,
  credential_fingerprint, model), so the table is a map from the key to the other columns.
  \<open>seq\<close> is the counter behind \<^verbatim>\<open>AUTOINCREMENT\<close>. A column of SQL type INTEGER holds an
  \<^typ>\<open>int\<close>, and the \<^verbatim>\<open>+\<close> of the upsert statement is the addition of integers; a
  DATETIME column holds the instant, and \<^verbatim>\<open><\<close> on it compares instants.
\<close>

record request_row =
  rowid :: nat
  timestamp :: int
  provider :: string
  model :: string
  credential_label :: string
  credential_fingerprint :: string
  api_key_hash :: string
  auth_id :: string
  auth_index :: int
  source :: string
  status_code :: int
  failed :: int
  rate_limited :: int
  prompt_tokens :: int
  completion_tokens :: int
  reasoning_tokens :: int
  cached_tokens :: int
  total_tokens :: int

type_synonym daily_key = "string \<times> string \<times> string \<times> string"

record daily_row =
  credential_label :: string
  total_requests :: int
  failed_requests :: int
  rate_limited :: int
  prompt_tokens :: int
  completion_tokens :: int
  total_tokens :: int

record database =
  usage_requests :: "request_row list"
  usage_daily :: "daily_key \<Rightarrow> daily_row option"
  seq :: nat

definition emptyDatabase :: database where
  "emptyDatabase = \<lparr>usage_requests = [], usage_daily = (\<lambda>k. None), seq = 0\<rparr>"

definition boolToInt :: "bool \<Rightarrow> int" where
  "boolToInt v = (if v then 1 else 0)"

text \<open>The first statement of \<^verbatim>\<open>insert\<close>: \<^verbatim>\<open>INSERT INTO usage_requests\<close>.\<close>

definition insert_usage_requests :: "dbRecord \<Rightarrow> database \<Rightarrow> database" where
  "insert_usage_requests rec db =
     db\<lparr>usage_requests := usage_requests db @
          [\<lparr>rowid = Suc (seq db),
            timestamp = instant (Timestamp rec),
            provider = dbRecord.Provider rec,
            model = dbRecord.Model rec,
            credential_label = CredentialLabel rec,
            credential_fingerprint = CredentialFingerprint rec,
            api_key_hash = APIKeyHash rec,
            auth_id = dbRecord.AuthID rec,
            auth_index = uint (dbRecord.AuthIndex rec),
            source = dbRecord.Source rec,
            status_code = StatusCode rec,
            failed = boolToInt (dbRecord.Failed rec),
            rate_limited = boolToInt (RateLimited rec),
            prompt_tokens = sint (TokenStats.InputTokens (Tokens rec)),
            completion_tokens = sint (TokenStats.OutputTokens (Tokens rec)),
            reasoning_tokens = sint (TokenStats.ReasoningTokens (Tokens rec)),
            cached_tokens = sint (TokenStats.CachedTokens (Tokens rec)),
            total_tokens = sint (TokenStats.TotalTokens (Tokens rec))\<rparr>],
        seq := Suc (seq db)\<rparr>"

text \<open>The key of the daily row a record contributes to.\<close>

definition daily_key_of :: "dbRecord \<Rightarrow> daily_key" where
  "daily_key_of rec =
     (formatDay (Timestamp rec), dbRecord.Provider rec, CredentialFingerprint rec,
      dbRecord.Model rec)"

text \<open>The row of the \<^verbatim>\<open>VALUES\<close> clause of the second statement (\<^verbatim>\<open>excluded\<close>).\<close>

definition excluded_row :: "dbRecord \<Rightarrow> daily_row" where
  "excluded_row rec =
     \<lparr>credential_label = CredentialLabel rec,
      total_requests = 1,
      failed_requests = boolToInt (dbRecord.Failed rec),
      rate_limited = boolToInt (RateLimited rec),
      prompt_tokens = sint (TokenStats.InputTokens (Tokens rec)),
      completion_tokens = sint (TokenStats.OutputTokens (Tokens rec)),
      total_tokens = sint (TokenStats.TotalTokens (Tokens rec))\<rparr>"

text \<open>\<^verbatim>\<open>ON CONFLICT ... DO UPDATE SET\<close>.\<close>

definition on_conflict_update :: "daily_row \<Rightarrow> daily_row \<Rightarrow> daily_row" where
  "on_conflict_update old excluded =
     \<lparr>credential_label =
        (if daily_row.credential_label excluded \<noteq> '''' then daily_row.credential_label excluded
         else daily_row.credential_label old),
      total_requests = total_requests old + total_requests excluded,
      failed_requests = failed_requests old + failed_requests excluded,
      rate_limited = daily_row.rate_limited old + daily_row.rate_limited excluded,
      prompt_tokens = daily_row.prompt_tokens old + daily_row.prompt_tokens excluded,
      completion_tokens = daily_row.completion_tokens old + daily_row.completion_tokens excluded,
      total_tokens = daily_row.total_tokens old + daily_row.total_tokens excluded\<rparr>"

text \<open>
  The second statement of \<^verbatim>\<open>insert\<close>, \<^verbatim>\<open>INSERT INTO usage_daily ... ON CONFLICT\<close>:
  what it makes of the row of the record's key, and of the table.
\<close>

definition upsert_row :: "daily_row option \<Rightarrow> dbRecord \<Rightarrow> daily_row" where
  "upsert_row row rec =
     (case row of
        None \<Rightarrow> excluded_row rec
      | Some old \<Rightarrow> on_conflict_update old (excluded_row rec))"

definition upsert_usage_daily :: "dbRecord \<Rightarrow> database \<Rightarrow> database" where
  "upsert_usage_daily rec db =
     (let k = daily_key_of rec
      in db\<lparr>usage_daily := (usage_daily db)(k := Some (upsert_row (usage_daily db k) rec))\<rparr>)"

text \<open>
  The steps of the transaction of \<^verbatim>\<open>insert\<close> that can return an error. Which of them do
  is decided outside the program (a busy or closed database, a full disk, a value the
  driver rejects): \<open>fails\<close> says it for one call.
\<close>

datatype txStep = BeginTx | ExecInsertRequests | ExecUpsertDaily | Commit

text \<open>
  \<^verbatim>\<open>usageStore.insert\<close>. The statements run on the transaction, whose state starts as the
  database; \<^verbatim>\<open>Commit\<close> makes it the database; every return before it runs the deferred
  \<^verbatim>\<open>Rollback\<close>, which leaves the database as it was, as a failed \<^verbatim>\<open>Commit\<close> does.
\<close>

definition usageStore_insert ::
  "(txStep \<Rightarrow> bool) \<Rightarrow> dbRecord \<Rightarrow> database \<Rightarrow> error option \<times> database" where
  "usageStore_insert fails rec db =
     (if fails BeginTx then (Some ErrBeginTx, db)
      else (let tx = db
            in if fails ExecInsertRequests then (Some ErrExec, db)
               else (let tx = insert_usage_requests rec tx
                     in if fails ExecUpsertDaily then (Some ErrExec, db)
                        else (let tx = upsert_usage_daily rec tx
                              in if fails Commit then (Some ErrCommit, db)
                                 else (None, tx)))))"

subsection \<open>The store and its workers\<close>

text \<open>
  A \<^verbatim>\<open>usageStore\<close>. \<open>db\<close> is the path of the database file the \<^verbatim>\<open>*sql.DB\<close> handle is
  open on and \<open>dbClosed\<close> says that the handle has been closed; \<open>queue\<close> is the content of
  the buffered channel, oldest first; \<open>stop\<close> says that the \<^verbatim>\<open>stop\<close> channel is closed.
\<close>

record usageStore =
  db :: string
  retentionDays :: "64 word"
  queue :: "dbRecord list"
  stop :: bool
  dbClosed :: bool

definition queueCapacity :: nat where
  "queueCapacity = 2048"

text \<open>
  The \<^verbatim>\<open>select\<close> of \<^verbatim>\<open>enqueue\<close> has two cases: the send on \<^verbatim>\<open>queue\<close> can proceed when
  the buffer has room, the receive on \<^verbatim>\<open>stop\<close> when the channel is closed. When both
  can, Go chooses one of them at random: \<open>pick\<close> is that choice. When neither can, the
  call blocks.
\<close>

datatype selectCase = SendQueue | RecvStop

definition usageStore_enqueue ::
  "selectCase \<Rightarrow> dbRecord \<Rightarrow> usageStore \<Rightarrow> (error option \<times> usageStore) outcome" where
  "usageStore_enqueue pick rec s =
     (let canSend = (length (queue s) < queueCapacity);
          canStop = stop s
      in if canSend \<and> (\<not> canStop \<or> pick = SendQueue)
         then Returns (None, s\<lparr>queue := queue s @ [rec]\<rparr>)
         else if canStop then Returns (Some ErrStopped, s)
         else Blocks)"

text \<open>
  The loop of \<^verbatim>\<open>drainRemaining\<close>: every record of the queue is inserted, oldest first,
  and an error is logged and dropped. \<open>fails n\<close> says which steps of the \<open>n\<close>-th
  transaction fail. The loop of \<^verbatim>\<open>run\<close> does the same with every record it receives.
\<close>

fun drainRemaining ::
  "(nat \<Rightarrow> txStep \<Rightarrow> bool) \<Rightarrow> nat \<Rightarrow> dbRecord list \<Rightarrow> database \<Rightarrow> database" where
  "drainRemaining fails n [] d = d"
| "drainRemaining fails n (rec # q) d =
     drainRemaining fails (Suc n) q (snd (usageStore_insert (fails n) rec d))"

datatype retentionStmt = DeleteRequests | DeleteDaily

text \<open>
  \<^verbatim>\<open>usageStore.applyRetention\<close>. The duration is computed in \<^verbatim>\<open>int64\<close>, as the code does;
  a \<^verbatim>\<open>DELETE\<close> that fails is logged and deletes nothing. The days are compared as
  strings, as SQL compares TEXT.
\<close>

definition usageStore_applyRetention ::
  "(retentionStmt \<Rightarrow> bool) \<Rightarrow> Time \<Rightarrow> usageStore \<Rightarrow> database \<Rightarrow> database" where
  "usageStore_applyRetention fails now s d =
     (if sint (retentionDays s) \<le> 0 then d
      else (let cutoff = Add (UTC now) (- retentionDays s * 24 * Hour);
                d1 = (if fails DeleteRequests then d
                      else d\<lparr>usage_requests :=
                              filter (\<lambda>r. \<not> timestamp r < instant cutoff) (usage_requests d)\<rparr>);
                cutoffDay = formatDay cutoff;
                d2 = (if fails DeleteDaily then d1
                      else d1\<lparr>usage_daily :=
                              (\<lambda>k. if fst k < cutoffDay then None else usage_daily d1 k)\<rparr>)
            in d2))"

text \<open>
  What the outside world decides during one call of \<^verbatim>\<open>ConfigureDatabase\<close> or \<^verbatim>\<open>close\<close>:
  whether opening the database at a path fails and how, the time, which steps of which
  transaction and which \<^verbatim>\<open>DELETE\<close> fail, and how many records the insert worker drains
  before the retention worker, which runs beside it, makes its last pass.
\<close>

datatype openFailure = MkdirAllFails | SqlOpenFails | SchemaFails

record env =
  openFails :: "string \<Rightarrow> openFailure option"
  Now :: Time
  txFails :: "nat \<Rightarrow> txStep \<Rightarrow> bool"
  deleteFails :: "retentionStmt \<Rightarrow> bool"
  retentionAfter :: nat

text \<open>
  \<^verbatim>\<open>usageStore.close\<close>: closing the closed \<^verbatim>\<open>stop\<close> channel panics; otherwise the
  workers see the stop, the insert worker drains the queue, the retention worker makes
  one more pass, and the handle is closed.
\<close>

definition usageStore_close ::
  "env \<Rightarrow> usageStore \<Rightarrow> database \<Rightarrow> (usageStore \<times> database) outcome" where
  "usageStore_close e s d =
     (if stop s then Panics
      else (let k = min (retentionAfter e) (length (queue s));
                d1 = drainRemaining (txFails e) 0 (take k (queue s)) d;
                d2 = usageStore_applyRetention (deleteFails e) (Now e) s d1;
                d3 = drainRemaining (txFails e) k (drop k (queue s)) d2
            in Returns (s\<lparr>queue := [], stop := True, dbClosed := True\<rparr>, d3)))"

subsection \<open>The process state and \<^verbatim>\<open>ConfigureDatabase\<close>\<close>

text \<open>
  The stores live on the heap, at addresses; \<^verbatim>\<open>currentUsageStore\<close> and
  \<^verbatim>\<open>currentDBConfig\<close> are the two atomic pointers (\<open>None\<close> is nil). \<open>files\<close> is the
  content of the database file at each path: a file that was never written has the two
  tables empty, which is what \<^verbatim>\<open>applyUsageSchema\<close> makes of a new file.
\<close>

record state =
  files :: "string \<Rightarrow> database"
  heap :: "nat \<Rightarrow> usageStore"
  allocated :: nat
  currentUsageStore :: "nat option"
  currentDBConfig :: "DatabaseOptions option"


definition newUsageStore :: "env \<Rightarrow> DatabaseOptions \<Rightarrow> state \<Rightarrow> error + (nat \<times> state)" where
  "newUsageStore e opts st =
     (if Path opts = '''' then Inl ErrPathEmpty
      else (case openFails e (Path opts) of
              Some MkdirAllFails \<Rightarrow> Inl ErrMkdir
            | Some SqlOpenFails \<Rightarrow> Inl ErrOpen
            | Some SchemaFails \<Rightarrow> Inl ErrSchema
            | None \<Rightarrow>
                (let store = \<lparr>db = Path opts, retentionDays = RetentionDays opts,
                              queue = [], stop = False, dbClosed = False\<rparr>;
                     a = allocated st
                 in Inr (a, st\<lparr>heap := (heap st)(a := store), allocated := Suc a\<rparr>))))"

text \<open>\<^verbatim>\<open>close\<close> of the store at an address, on the file its handle is open on.\<close>

definition close_at :: "env \<Rightarrow> nat \<Rightarrow> state \<Rightarrow> state outcome" where
  "close_at e a st =
     (let s = heap st a
      in case usageStore_close e s (files st (db s)) of
           Panics \<Rightarrow> Panics
         | Blocks \<Rightarrow> Blocks
         | Returns (s', d') \<Rightarrow>
             Returns (st\<lparr>files := (files st)(db s := d'), heap := (heap st)(a := s')\<rparr>))"

definition ConfigureDatabase ::
  "(string \<Rightarrow> string) \<Rightarrow> env \<Rightarrow> DatabaseOptions \<Rightarrow> state \<Rightarrow> (error option \<times> state) outcome" where
  "ConfigureDatabase Clean e opts st =
     (let normalized = normalizeDatabaseOptions Clean opts;
          prev = currentDBConfig st
      in if configsEqual prev (Some normalized) then Returns (None, st)
         else if \<not> Enabled normalized \<or> Path normalized = '''' then
           (let st1 = st\<lparr>currentDBConfig := Some normalized\<rparr>;
                prevStore = currentUsageStore st1;
                st2 = st1\<lparr>currentUsageStore := None\<rparr>
            in case prevStore of
                 None \<Rightarrow> Returns (None, st2)
               | Some a \<Rightarrow>
                   (case close_at e a st2 of
                      Panics \<Rightarrow> Panics
                    | Blocks \<Rightarrow> Blocks
                    | Returns st3 \<Rightarrow> Returns (None, st3)))
         else
           (case newUsageStore e normalized st of
              Inl err \<Rightarrow> Returns (Some err, st)
            | Inr (store, st1) \<Rightarrow>
                (let old = currentUsageStore st1;
                     st2 = st1\<lparr>currentUsageStore := Some store\<rparr>
                 in case old of
                      None \<Rightarrow> Returns (None, st2\<lparr>currentDBConfig := Some normalized\<rparr>)
                    | Some a \<Rightarrow>
                        (case close_at e a st2 of
                           Panics \<Rightarrow> Panics
                         | Blocks \<Rightarrow> Blocks
                         | Returns st3 \<Rightarrow>
                             Returns (None, st3\<lparr>currentDBConfig := Some normalized\<rparr>)))))"

text \<open>
  \<^verbatim>\<open>databasePlugin.HandleUsage\<close>: nothing without a current store; otherwise the record
  is derived and enqueued on the current store, and an error of \<^verbatim>\<open>enqueue\<close> is logged.
\<close>

definition databasePlugin_HandleUsage ::
  "(Detail \<Rightarrow> TokenStats) \<Rightarrow> Time \<Rightarrow> selectCase \<Rightarrow> context \<Rightarrow> Record \<Rightarrow> state \<Rightarrow> state outcome" where
  "databasePlugin_HandleUsage normaliseDetail now pick ctx record st =
     (case currentUsageStore st of
        None \<Rightarrow> Returns st
      | Some store \<Rightarrow>
          (case resolveStatusCode ctx of
             Panics \<Rightarrow> Panics
           | Blocks \<Rightarrow> Blocks
           | Returns status \<Rightarrow>
               (let dbRec = HandleUsage_dbRec normaliseDetail now status record
                in case usageStore_enqueue pick dbRec (heap st store) of
                     Panics \<Rightarrow> Panics
                   | Blocks \<Rightarrow> Blocks
                   | Returns (err, s') \<Rightarrow> Returns (st\<lparr>heap := (heap st)(store := s')\<rparr>))))"

text \<open>
  The records whose \<^verbatim>\<open>insert\<close> returned nil while the worker went through a queue: the
  successfully inserted ones.
\<close>

fun inserted ::
  "(nat \<Rightarrow> txStep \<Rightarrow> bool) \<Rightarrow> nat \<Rightarrow> dbRecord list \<Rightarrow> database \<Rightarrow> dbRecord list" where
  "inserted fails n [] d = []"
| "inserted fails n (rec # q) d =
     (case usageStore_insert (fails n) rec d of
        (None, d') \<Rightarrow> rec # inserted fails (Suc n) q d'
      | (Some err, d') \<Rightarrow> inserted fails (Suc n) q d')"

section \<open>The OTLP plugin (\<^verbatim>\<open>otlp_plugin.go\<close>)\<close>

datatype attr = AttrString string | AttrUint64 "64 word" | AttrBool bool

record OTLPEvent =
  Component :: string
  Event :: string
  Timestamp :: string
  Provider :: string
  Model :: string
  AccountEmail :: string
  ConversationID :: string
  TurnID :: string
  Tokens :: "(string \<times> 64 word) list"
  RequestDurationMs :: "64 word"
  StatusCode :: int
  Attributes :: "(string \<times> attr) list"

datatype chan = NilChan | OpenChan | ClosedChan

datatype ticker = NoTicker | TickerRunning | TickerStopped

text \<open>
  The plugin. The HTTP client is the same for every plugin (a timeout of five seconds)
  and the two mutexes only order concurrent calls, so they are not fields of the model;
  \<^verbatim>\<open>batchTimer\<close> is never used.
\<close>

record OTLPPlugin =
  endpoint :: string
  enabled :: bool
  batch :: "Record list"
  batchSize :: int
  flushTicker :: ticker
  stopChan :: chan

record httpRequest =
  Method :: string
  URL :: string
  Header :: "(string \<times> string) list"
  Body :: string

datatype otlpError = ErrMarshal | ErrCreateRequest | ErrSendRequest | ErrHTTPStatus int

text \<open>
  The library and the outside world of the plugin: the environment variables, the
  RFC 3339 rendering of a time, \<^verbatim>\<open>json.Marshal\<close> (\<open>None\<close> is an error), whether
  \<^verbatim>\<open>http.NewRequestWithContext\<close> accepts a URL, \<^verbatim>\<open>strings.TrimSpace\<close>, and the status
  the collector answers the \<open>n\<close>-th request with (\<open>None\<close> is a transport error).
\<close>

record otlpEnv =
  Getenv :: "string \<Rightarrow> string"
  formatRFC3339Nano :: "Time \<Rightarrow> string"
  Marshal :: "OTLPEvent \<Rightarrow> string option"
  validURL :: "string \<Rightarrow> bool"
  TrimSpace :: "string \<Rightarrow> string"
  Do :: "nat \<Rightarrow> httpRequest \<Rightarrow> int option"

text \<open>What the plugin does to the outside: the requests handed to the client, the errors logged.\<close>

record network =
  sent :: "httpRequest list"
  logged :: "otlpError list"

definition NewOTLPPlugin :: "otlpEnv \<Rightarrow> OTLPPlugin" where
  "NewOTLPPlugin e =
     (let endpoint0 = Getenv e ''DY_NOTI_OTEL_ENDPOINT'';
          endpoint1 = (if endpoint0 = '''' then ''http://127.0.0.1:4318/v1/logs'' else endpoint0)
      in \<lparr>endpoint = endpoint1, enabled = True, batch = [], batchSize = 10,
          flushTicker = TickerRunning, stopChan = OpenChan\<rparr>)"

definition convertRecordToEvent :: "otlpEnv \<Rightarrow> context \<Rightarrow> Record \<Rightarrow> OTLPEvent outcome" where
  "convertRecordToEvent e ctx record =
     (let event =
            \<lparr>Component = ''cli-proxy-api'',
             Event = ''usage.record'',
             Timestamp = formatRFC3339Nano e (RequestedAt record),
             Provider = Record.Provider record,
             Model = Record.Model record,
             AccountEmail = '''',
             ConversationID = '''',
             TurnID = '''',
             Tokens = [(''input'', Detail.InputTokens (Detail record)),
                       (''output'', Detail.OutputTokens (Detail record)),
                       (''reasoning'', Detail.ReasoningTokens (Detail record)),
                       (''cached'', Detail.CachedTokens (Detail record)),
                       (''total'', Detail.TotalTokens (Detail record))],
             RequestDurationMs = 0,
             StatusCode = 200,
             Attributes = [(''api_key'', AttrString (APIKey record)),
                           (''auth_id'', AttrString (Record.AuthID record)),
                           (''auth_index'', AttrUint64 (Record.AuthIndex record)),
                           (''source'', AttrString (Record.Source record)),
                           (''failed'', AttrBool (Record.Failed record))]\<rparr>
      in case ctx of
           NilContext \<Rightarrow> Panics
         | Context None \<Rightarrow> Returns event
         | Context (Some ginCtx) \<Rightarrow>
             (let event1 = (case Keys ginCtx ''auth_value'' of
                              Some (StringVal authStr) \<Rightarrow>
                                (if authStr \<noteq> '''' then event\<lparr>AccountEmail := authStr\<rparr> else event)
                            | _ \<Rightarrow> event);
                  event2 = (case Keys ginCtx ''conversation_id'' of
                              Some (StringVal convStr) \<Rightarrow> event1\<lparr>ConversationID := convStr\<rparr>
                            | _ \<Rightarrow> event1);
                  event3 = (case Keys ginCtx ''turn_id'' of
                              Some (StringVal turnStr) \<Rightarrow> event2\<lparr>TurnID := turnStr\<rparr>
                            | _ \<Rightarrow> event2);
                  event4 = (case Writer ginCtx of
                              Some status \<Rightarrow> event3\<lparr>OTLPEvent.StatusCode := status\<rparr>
                            | None \<Rightarrow> event3)
              in Returns event4))"

definition sendEvent ::
  "otlpEnv \<Rightarrow> OTLPPlugin \<Rightarrow> OTLPEvent \<Rightarrow> network \<Rightarrow> otlpError option \<times> network" where
  "sendEvent e p event w =
     (case Marshal e event of
        None \<Rightarrow> (Some ErrMarshal, w)
      | Some payload \<Rightarrow>
          (if \<not> validURL e (endpoint p) then (Some ErrCreateRequest, w)
           else (let req = \<lparr>Method = ''POST'', URL = endpoint p,
                             Header = [(''Content-Type'', ''application/json''),
                                       (''User-Agent'', ''CLIProxyAPI-OTLP-Exporter/1.0'')],
                             Body = payload\<rparr>;
                     w1 = w\<lparr>sent := sent w @ [req]\<rparr>
                 in case Do e (length (sent w)) req of
                      None \<Rightarrow> (Some ErrSendRequest, w1)
                    | Some status \<Rightarrow>
                        (if status < 200 \<or> status \<ge> 300 then (Some (ErrHTTPStatus status), w1)
                         else (None, w1)))))"

definition logError :: "otlpError option \<times> network \<Rightarrow> network" where
  "logError r =
     (case r of (None, w) \<Rightarrow> w | (Some err, w) \<Rightarrow> w\<lparr>logged := logged w @ [err]\<rparr>)"

definition OTLPPlugin_HandleUsage ::
  "otlpEnv \<Rightarrow> context \<Rightarrow> Record \<Rightarrow> OTLPPlugin \<times> network \<Rightarrow> (OTLPPlugin \<times> network) outcome" where
  "OTLPPlugin_HandleUsage e ctx record pw =
     (case pw of (p, w) \<Rightarrow>
        if \<not> enabled p then Returns (p, w)
        else (case convertRecordToEvent e ctx record of
                Panics \<Rightarrow> Panics
              | Blocks \<Rightarrow> Blocks
              | Returns event \<Rightarrow> Returns (p, logError (sendEvent e p event w))))"

definition SetEnabled :: "bool \<Rightarrow> OTLPPlugin \<Rightarrow> OTLPPlugin" where
  "SetEnabled b p = p\<lparr>enabled := b\<rparr>"

definition IsEnabled :: "OTLPPlugin \<Rightarrow> bool" where
  "IsEnabled p = enabled p"

definition SetEndpoint :: "otlpEnv \<Rightarrow> string \<Rightarrow> OTLPPlugin \<Rightarrow> OTLPPlugin" where
  "SetEndpoint e s p = p\<lparr>endpoint := TrimSpace e s\<rparr>"

definition GetEndpoint :: "OTLPPlugin \<Rightarrow> string" where
  "GetEndpoint p = endpoint p"

text \<open>The loop of \<^verbatim>\<open>flushBatch\<close> over the copied batch, with the background context.\<close>

fun sendBatch :: "otlpEnv \<Rightarrow> OTLPPlugin \<Rightarrow> Record list \<Rightarrow> network \<Rightarrow> network outcome" where
  "sendBatch e p [] w = Returns w"
| "sendBatch e p (record # rs) w =
     (case convertRecordToEvent e (Context None) record of
        Panics \<Rightarrow> Panics
      | Blocks \<Rightarrow> Blocks
      | Returns event \<Rightarrow> sendBatch e p rs (logError (sendEvent e p event w)))"

definition flushBatch ::
  "otlpEnv \<Rightarrow> OTLPPlugin \<times> network \<Rightarrow> (OTLPPlugin \<times> network) outcome" where
  "flushBatch e pw =
     (case pw of (p, w) \<Rightarrow>
        if length (batch p) = 0 then Returns (p, w)
        else (let batchCopy = batch p;
                  p1 = p\<lparr>batch := []\<rparr>
              in case sendBatch e p1 batchCopy w of
                   Panics \<Rightarrow> Panics
                 | Blocks \<Rightarrow> Blocks
                 | Returns w1 \<Rightarrow> Returns (p1, w1)))"

text \<open>\<^verbatim>\<open>Close\<close>: closing a nil or a closed channel panics.\<close>

definition Close ::
  "otlpEnv \<Rightarrow> OTLPPlugin \<times> network \<Rightarrow> (OTLPPlugin \<times> network) outcome" where
  "Close e pw =
     (case pw of (p, w) \<Rightarrow>
        (let p1 = (if flushTicker p \<noteq> NoTicker then p\<lparr>flushTicker := TickerStopped\<rparr> else p)
         in if stopChan p1 \<noteq> OpenChan then Panics
            else flushBatch e (p1\<lparr>stopChan := ClosedChan\<rparr>, w)))"

text \<open>
  The operations on a plugin: the public methods that change it or act on the network,
  and one turn of \<^verbatim>\<open>periodicFlush\<close> in which the ticker has fired.
\<close>

datatype operation =
    OpHandleUsage "context" Record
  | OpSetEnabled bool
  | OpSetEndpoint string
  | OpPeriodicFlush
  | OpClose

fun step ::
  "otlpEnv \<Rightarrow> operation \<Rightarrow> OTLPPlugin \<times> network \<Rightarrow> (OTLPPlugin \<times> network) outcome" where
  "step e (OpHandleUsage ctx record) pw = OTLPPlugin_HandleUsage e ctx record pw"
| "step e (OpSetEnabled b) pw = Returns (SetEnabled b (fst pw), snd pw)"
| "step e (OpSetEndpoint s) pw = Returns (SetEndpoint e s (fst pw), snd pw)"
| "step e OpPeriodicFlush pw = flushBatch e pw"
| "step e OpClose pw = Close e pw"

fun run ::
  "otlpEnv \<Rightarrow> operation list \<Rightarrow> OTLPPlugin \<times> network \<Rightarrow> (OTLPPlugin \<times> network) outcome" where
  "run e [] pw = Returns pw"
| "run e (x # xs) pw =
     (case step e x pw of
        Panics \<Rightarrow> Panics
      | Blocks \<Rightarrow> Blocks
      | Returns pw1 \<Rightarrow> run e xs pw1)"

section \<open>Concrete inputs\<close>

text \<open>A record with no auth id, no source, no key and no provider.\<close>

definition anonymousRecord :: Record where
  "anonymousRecord =
     \<lparr>Record.Provider = [], Record.Model = ''qwen3-coder'', APIKey = [],
      Record.AuthID = [], Record.AuthIndex = 0, Record.Source = [],
      RequestedAt = \<lparr>instant = 0, offset = 0\<rparr>, Record.Failed = False,
      Detail = \<lparr>Detail.InputTokens = 10, Detail.OutputTokens = 15, Detail.ReasoningTokens = 0,
                Detail.CachedTokens = 0, Detail.TotalTokens = 25\<rparr>\<rparr>"

text \<open>The records of the two tests of the package, and their times.\<close>

definition recordA :: Record where
  "recordA =
     \<lparr>Record.Provider = ''qwen'', Record.Model = ''qwen3-coder'', APIKey = [],
      Record.AuthID = ''auth-A'', Record.AuthIndex = 7, Record.Source = ''source-A'',
      RequestedAt = \<lparr>instant = 1793577600000000000, offset = 0\<rparr>, Record.Failed = False,
      Detail = \<lparr>Detail.InputTokens = 10, Detail.OutputTokens = 15, Detail.ReasoningTokens = 0,
                Detail.CachedTokens = 0, Detail.TotalTokens = 25\<rparr>\<rparr>"



text \<open>November 2, 2026, 00:00:00 UTC.\<close>

definition time0 :: Time where
  "time0 = \<lparr>instant = 1793577600000000000, offset = 0\<rparr>"

text \<open>
  In the concrete inputs, \<^verbatim>\<open>normaliseDetail\<close> is a function that copies the five counts;
  the records above carry their total.
\<close>

definition copyDetail :: "Detail \<Rightarrow> TokenStats" where
  "copyDetail detail =
     \<lparr>TokenStats.InputTokens = Detail.InputTokens detail,
      TokenStats.OutputTokens = Detail.OutputTokens detail,
      TokenStats.ReasoningTokens = Detail.ReasoningTokens detail,
      TokenStats.CachedTokens = Detail.CachedTokens detail,
      TokenStats.TotalTokens = Detail.TotalTokens detail\<rparr>"

definition dbRecA :: dbRecord where
  "dbRecA = HandleUsage_dbRec copyDetail time0 200 recordA"




text \<open>Nothing fails; only the commit fails.\<close>

definition noFailure :: "txStep \<Rightarrow> bool" where
  "noFailure x = False"

definition commitFails :: "txStep \<Rightarrow> bool" where
  "commitFails x = (x = Commit)"

definition env0 :: env where
  "env0 = \<lparr>openFails = (\<lambda>path. None), Now = time0, txFails = (\<lambda>n. noFailure),
           deleteFails = (\<lambda>stmt. False), retentionAfter = 0\<rparr>"

text \<open>A store as \<^verbatim>\<open>newUsageStore\<close> makes it, and the same store after \<^verbatim>\<open>close\<close>.\<close>

definition store0 :: usageStore where
  "store0 = \<lparr>db = ''usage.db'', retentionDays = 14, queue = [], stop = False, dbClosed = False\<rparr>"

definition stoppedStore :: usageStore where
  "stoppedStore = \<lparr>db = ''usage.db'', retentionDays = 14, queue = [], stop = True, dbClosed = True\<rparr>"

text \<open>
  A database file that holds one request of January 1, 1970 and its daily row; a process
  in which nothing is configured yet; the options of a caller that leaves the retention
  unset; the process after \<^verbatim>\<open>ConfigureDatabase\<close> with these options.
\<close>

definition oldRequest :: request_row where
  "oldRequest =
     \<lparr>rowid = 1, timestamp = 0, provider = ''qwen'', model = ''qwen3-coder'',
      credential_label = ''auth-A'', credential_fingerprint = fingerprint ''auth-A'',
      api_key_hash = [], auth_id = ''auth-A'', auth_index = 7, source = ''source-A'',
      status_code = 200, failed = 0, rate_limited = 0, prompt_tokens = 10,
      completion_tokens = 15, reasoning_tokens = 0, cached_tokens = 0, total_tokens = 25\<rparr>"

definition oldKey :: daily_key where
  "oldKey = (''1970-01-01'', ''qwen'', fingerprint ''auth-A'', ''qwen3-coder'')"

definition oldDaily :: daily_row where
  "oldDaily =
     \<lparr>credential_label = ''auth-A'', total_requests = 1, failed_requests = 0, rate_limited = 0,
      prompt_tokens = 10, completion_tokens = 15, total_tokens = 25\<rparr>"

definition oldDatabase :: database where
  "oldDatabase =
     \<lparr>usage_requests = [oldRequest], usage_daily = (\<lambda>k. None)(oldKey := Some oldDaily),
      seq = 1\<rparr>"

definition zeroStore :: usageStore where
  "zeroStore = \<lparr>db = [], retentionDays = 0, queue = [], stop = False, dbClosed = False\<rparr>"

definition state0 :: state where
  "state0 =
     \<lparr>files = (\<lambda>path. emptyDatabase)(''usage.db'' := oldDatabase), heap = (\<lambda>a. zeroStore),
      allocated = 0, currentUsageStore = None, currentDBConfig = None\<rparr>"

definition opts0 :: DatabaseOptions where
  "opts0 = \<lparr>Enabled = True, Path = ''usage.db'', RetentionDays = 0\<rparr>"

definition state1 :: state where
  "state1 =
     state0\<lparr>heap := (heap state0)(0 := store0), allocated := 1, currentUsageStore := Some 0,
            currentDBConfig := Some \<lparr>Enabled = True, Path = ''usage.db'', RetentionDays = 14\<rparr>\<rparr>"

text \<open>
  For the OTLP plugin: \<^verbatim>\<open>strings.TrimSpace\<close> on a string of ASCII bytes, and an outside
  world in which the environment variable is unset, every event is rendered, every URL
  is accepted and the collector answers 200.
\<close>

definition asciiSpace :: "char \<Rightarrow> bool" where
  "asciiSpace c = (c \<in> set [CHR 0x09, CHR 0x0A, CHR 0x0B, CHR 0x0C, CHR 0x0D, CHR '' ''])"

definition TrimSpace_ascii :: "string \<Rightarrow> string" where
  "TrimSpace_ascii s = rev (dropWhile asciiSpace (rev (dropWhile asciiSpace s)))"

definition otlpEnv0 :: otlpEnv where
  "otlpEnv0 =
     \<lparr>Getenv = (\<lambda>name. []),
      formatRFC3339Nano = (\<lambda>t. formatDay t @ ''T00:00:00Z''),
      Marshal = (\<lambda>event. Some (OTLPEvent.Model event)),
      validURL = (\<lambda>u. True),
      TrimSpace = TrimSpace_ascii,
      Do = (\<lambda>n req. Some 200)\<rparr>"

definition network0 :: network where
  "network0 = \<lparr>sent = [], logged = []\<rparr>"

definition background :: "context" where
  "background = Context None"

text \<open>
  A plugin that is disabled, then given an endpoint, flushed and handed a record; and a
  plugin that sends one record, is disabled, flushed, enabled again and closed.
\<close>

definition opsDisabled :: "operation list" where
  "opsDisabled =
     [OpSetEndpoint ''  https://collector.example/v1/logs  '', OpPeriodicFlush,
      OpHandleUsage background recordA]"

definition pluginDisabled :: OTLPPlugin where
  "pluginDisabled =
     \<lparr>endpoint = ''https://collector.example/v1/logs'', enabled = False, batch = [],
      batchSize = 10, flushTicker = TickerRunning, stopChan = OpenChan\<rparr>"

definition opsSession :: "operation list" where
  "opsSession =
     [OpHandleUsage background recordA, OpSetEnabled False, OpPeriodicFlush,
      OpSetEnabled True, OpClose]"

definition pluginClosed :: OTLPPlugin where
  "pluginClosed =
     \<lparr>endpoint = ''http://127.0.0.1:4318/v1/logs'', enabled = True, batch = [],
      batchSize = 10, flushTicker = TickerStopped, stopChan = ClosedChan\<rparr>"

definition requestA :: httpRequest where
  "requestA =
     \<lparr>Method = ''POST'', URL = ''http://127.0.0.1:4318/v1/logs'',
      Header = [(''Content-Type'', ''application/json''),
                (''User-Agent'', ''CLIProxyAPI-OTLP-Exporter/1.0'')],
      Body = ''qwen3-coder''\<rparr>"

definition network1 :: network where
  "network1 = \<lparr>sent = [requestA], logged = []\<rparr>"

section \<open>Properties\<close>

subsection \<open>Fingerprints\<close>

lemma length_sha_out: "length (sha_out st) = 32"
  by (induction st rule: sha_out.induct) (simp add: bytes32_def)

lemma length_EncodeToString: "length (EncodeToString bs) = 2 * length bs"
  by (induction bs) (simp_all add: EncodeToString_def)

lemma length_fingerprint: "v \<noteq> [] \<Longrightarrow> length (fingerprint v) = 64"
  by (simp add: fingerprint_def length_EncodeToString Sum256_def length_sha_out)

lemma fingerprint_nonempty: "v \<noteq> [] \<Longrightarrow> fingerprint v \<noteq> []"
  using length_fingerprint [of v] by auto

text \<open>
  C6, as stated, fails: when the auth id, the source, the key and the provider of a
  record are all empty, \<^verbatim>\<open>credentialFingerprint\<close> takes the \<^verbatim>\<open>default\<close> case of its
  switch and returns the fingerprint of the literal \<^verbatim>\<open>"unknown"\<close>, which is not the empty
  string.
\<close>

theorem credentialFingerprint_anonymous_counterexample:
  "credentialFingerprint anonymousRecord \<noteq> []"
proof -
  have "credentialFingerprint anonymousRecord = fingerprint ''unknown''"
    by (simp add: credentialFingerprint_def anonymousRecord_def)
  then show ?thesis
    using fingerprint_nonempty [of "''unknown''"] by simp
qed

text \<open>
  C6, amended: the credential fingerprint of a record is the fingerprint of the first
  non-empty value among the auth id, the source, the raw key and the provider, in that
  order, and of the literal \<^verbatim>\<open>"unknown"\<close> when the four are empty, which is a string of
  64 hexadecimal digits; the fingerprint of a non-empty string is the hexadecimal
  rendering of its SHA-256 digest, and the fingerprint of the empty string is the empty
  string.
\<close>

theorem credentialFingerprint_first_nonempty:
  "credentialFingerprint record =
     fingerprint (case find (\<lambda>v. v \<noteq> [])
                         [Record.AuthID record, Record.Source record, APIKey record,
                          Record.Provider record] of
                    Some v \<Rightarrow> v
                  | None \<Rightarrow> ''unknown'')
   \<and> (Record.AuthID record = [] \<and> Record.Source record = [] \<and> APIKey record = []
        \<and> Record.Provider record = [] \<longrightarrow>
          credentialFingerprint record = EncodeToString (Sum256 (bytes_of ''unknown''))
          \<and> length (credentialFingerprint record) = 64)
   \<and> (\<forall>v. v \<noteq> [] \<longrightarrow> fingerprint v = EncodeToString (Sum256 (bytes_of v)))
   \<and> fingerprint [] = []"
proof -
  have unknown: "fingerprint ''unknown'' = EncodeToString (Sum256 (bytes_of ''unknown''))"
    by (simp add: fingerprint_def)
  have "length (fingerprint ''unknown'') = 64"
    by (rule length_fingerprint) simp
  then show ?thesis
    using unknown by (simp add: credentialFingerprint_def fingerprint_def)
qed

theorem credentialFingerprint_first_nonempty_witness:
  "(Record.AuthID anonymousRecord = [] \<and> Record.Source anonymousRecord = []
      \<and> APIKey anonymousRecord = [] \<and> Record.Provider anonymousRecord = [])
   \<and> credentialFingerprint anonymousRecord = EncodeToString (Sum256 (bytes_of ''unknown''))
   \<and> length (credentialFingerprint anonymousRecord) = 64
   \<and> ''auth-A'' \<noteq> []
   \<and> fingerprint ''auth-A'' = EncodeToString (Sum256 (bytes_of ''auth-A''))"
proof -
  have h: "Record.AuthID anonymousRecord = [] \<and> Record.Source anonymousRecord = []
      \<and> APIKey anonymousRecord = [] \<and> Record.Provider anonymousRecord = []"
    by (simp add: anonymousRecord_def)
  have n: "''auth-A'' \<noteq> []"
    by simp
  from credentialFingerprint_first_nonempty [of anonymousRecord] h n show ?thesis
    by blast
qed

subsection \<open>The endpoint of the OTLP plugin\<close>

text \<open>
  C7: for every string \<open>s\<close>, \<^verbatim>\<open>SetEndpoint(s)\<close> followed by \<^verbatim>\<open>GetEndpoint()\<close> returns
  \<^verbatim>\<open>strings.TrimSpace(s)\<close>, the string without its leading and trailing white space;
  the call changes nothing else of the plugin.
\<close>

theorem SetEndpoint_GetEndpoint:
  "GetEndpoint (SetEndpoint e s p) = TrimSpace e s
   \<and> SetEndpoint e s p = p\<lparr>endpoint := GetEndpoint (SetEndpoint e s p)\<rparr>"
  by (simp add: GetEndpoint_def SetEndpoint_def)


subsection \<open>The transaction of \<^verbatim>\<open>insert\<close>\<close>

lemma insert_failure:
  "fails BeginTx \<or> fails ExecInsertRequests \<or> fails ExecUpsertDaily \<or> fails Commit \<Longrightarrow>
     fst (usageStore_insert fails rec d) \<noteq> None \<and> snd (usageStore_insert fails rec d) = d"
  by (auto simp: usageStore_insert_def Let_def)

lemma insert_success:
  "\<not> (fails BeginTx \<or> fails ExecInsertRequests \<or> fails ExecUpsertDaily \<or> fails Commit) \<Longrightarrow>
     usageStore_insert fails rec d = (None, upsert_usage_daily rec (insert_usage_requests rec d))"
  by (simp add: usageStore_insert_def Let_def)

lemma on_conflict_update_neq: "on_conflict_update old (excluded_row rec) \<noteq> old"
proof
  assume "on_conflict_update old (excluded_row rec) = old"
  then have "total_requests (on_conflict_update old (excluded_row rec)) = total_requests old"
    by simp
  then show False
    by (simp add: on_conflict_update_def excluded_row_def)
qed

lemma upsert_changes_row:
  "usage_daily (upsert_usage_daily rec d) (daily_key_of rec) \<noteq> usage_daily d (daily_key_of rec)"
  by (cases "usage_daily d (daily_key_of rec)")
     (simp_all add: upsert_usage_daily_def upsert_row_def on_conflict_update_neq Let_def)

lemma insert_usage_requests_daily [simp]:
  "usage_daily (insert_usage_requests rec d) = usage_daily d"
  by (simp add: insert_usage_requests_def)

lemma upsert_usage_daily_requests [simp]:
  "usage_requests (upsert_usage_daily rec d) = usage_requests d"
  by (simp add: upsert_usage_daily_def Let_def)

text \<open>
  C2: the two writes of \<^verbatim>\<open>insert\<close> take effect together or not at all. When the
  transaction cannot begin, or a statement or the commit fails, \<^verbatim>\<open>insert\<close> returns an
  error and the database is what it was; otherwise it returns no error, the request row
  is appended and the daily row of the record's key is changed by the upsert.
\<close>

theorem insert_atomic:
  "usageStore_insert fails rec d = (err, d') \<Longrightarrow>
     (if fails BeginTx \<or> fails ExecInsertRequests \<or> fails ExecUpsertDaily \<or> fails Commit
      then err \<noteq> None \<and> d' = d
      else err = None
         \<and> d' = upsert_usage_daily rec (insert_usage_requests rec d)
         \<and> length (usage_requests d') = Suc (length (usage_requests d))
         \<and> usage_daily d' (daily_key_of rec) \<noteq> usage_daily d (daily_key_of rec))"
proof (cases "fails BeginTx \<or> fails ExecInsertRequests \<or> fails ExecUpsertDaily \<or> fails Commit")
  case True
  assume "usageStore_insert fails rec d = (err, d')"
  with insert_failure [OF True, of rec d] True show ?thesis
    by simp
next
  case False
  assume "usageStore_insert fails rec d = (err, d')"
  with insert_success [OF False, of rec d]
  have "err = None" and d': "d' = upsert_usage_daily rec (insert_usage_requests rec d)"
    by simp_all
  moreover have "length (usage_requests d') = Suc (length (usage_requests d))"
    by (simp add: d') (simp add: insert_usage_requests_def)
  moreover have "usage_daily d' (daily_key_of rec) \<noteq> usage_daily d (daily_key_of rec)"
    using upsert_changes_row [of rec "insert_usage_requests rec d"] by (simp add: d')
  ultimately show ?thesis
    using False by simp
qed

text \<open>C2 at a concrete record: once with a failing commit, once with no failure.\<close>

theorem insert_atomic_witness:
  "usageStore_insert commitFails dbRecA oldDatabase = (Some ErrCommit, oldDatabase)
   \<and> commitFails Commit
   \<and> usageStore_insert noFailure dbRecA oldDatabase
       = (None, upsert_usage_daily dbRecA (insert_usage_requests dbRecA oldDatabase))
   \<and> \<not> (noFailure BeginTx \<or> noFailure ExecInsertRequests \<or> noFailure ExecUpsertDaily
          \<or> noFailure Commit)
   \<and> length (usage_requests (upsert_usage_daily dbRecA (insert_usage_requests dbRecA oldDatabase)))
       = Suc (length (usage_requests oldDatabase))"
proof -
  have a: "usageStore_insert commitFails dbRecA oldDatabase = (Some ErrCommit, oldDatabase)"
    by (simp add: usageStore_insert_def commitFails_def Let_def)
  have b: "usageStore_insert noFailure dbRecA oldDatabase
       = (None, upsert_usage_daily dbRecA (insert_usage_requests dbRecA oldDatabase))"
    by (simp add: usageStore_insert_def noFailure_def Let_def)
  from insert_atomic [OF a] insert_atomic [OF b] a b show ?thesis
    by (simp add: commitFails_def noFailure_def)
qed

subsection \<open>\<^verbatim>\<open>enqueue\<close> on a stopped store\<close>

text \<open>
  \<^verbatim>\<open>enqueue\<close> never panics, and on a stopped store it never blocks; it returns the error
  when the queue is full or when the \<^verbatim>\<open>select\<close> picks the receive on \<^verbatim>\<open>stop\<close>.
\<close>

lemma enqueue_never_panics: "usageStore_enqueue pick rec s \<noteq> Panics"
  by (simp add: usageStore_enqueue_def Let_def)

lemma enqueue_stopped_never_blocks: "stop s \<Longrightarrow> usageStore_enqueue pick rec s \<noteq> Blocks"
  by (simp add: usageStore_enqueue_def Let_def)

lemma enqueue_stopped_full:
  "stop s \<Longrightarrow> \<not> length (queue s) < queueCapacity \<Longrightarrow>
     usageStore_enqueue pick rec s = Returns (Some ErrStopped, s)"
  by (simp add: usageStore_enqueue_def Let_def)

lemma enqueue_stopped_room:
  "stop s \<Longrightarrow> length (queue s) < queueCapacity \<Longrightarrow>
     usageStore_enqueue SendQueue rec s = Returns (None, s\<lparr>queue := queue s @ [rec]\<rparr>)"
  by (simp add: usageStore_enqueue_def Let_def)

lemma applyRetention_empty:
  "usageStore_applyRetention f now s emptyDatabase = emptyDatabase"
  by (auto simp: usageStore_applyRetention_def emptyDatabase_def Let_def fun_eq_iff)

text \<open>
  C4 fails on the code: after \<^verbatim>\<open>close\<close> has closed the \<^verbatim>\<open>stop\<close> channel and drained the
  queue, both cases of the \<^verbatim>\<open>select\<close> of \<^verbatim>\<open>enqueue\<close> can proceed, and when the send is
  picked the record is accepted onto the queue of the stopped store and \<^verbatim>\<open>enqueue\<close>
  returns nil.
\<close>

theorem enqueue_on_stopped_store_accepts:
  "usageStore_close env0 store0 emptyDatabase = Returns (stoppedStore, emptyDatabase)
   \<and> usageStore_enqueue SendQueue dbRecA stoppedStore
       = Returns (None, stoppedStore\<lparr>queue := [dbRecA]\<rparr>)"
  by (simp add: usageStore_close_def usageStore_enqueue_def store0_def stoppedStore_def
        applyRetention_empty queueCapacity_def Let_def)

text \<open>
  C4 at the stopped store: the channel is closed and the queue has room, so the outcome
  is the choice of the \<^verbatim>\<open>select\<close>: the send accepts the record, the receive returns the
  error.
\<close>

theorem enqueue_on_stopped_store_accepts_witness:
  "stop stoppedStore
   \<and> length (queue stoppedStore) < queueCapacity
   \<and> usageStore_enqueue SendQueue dbRecA stoppedStore
       = Returns (None, stoppedStore\<lparr>queue := [dbRecA]\<rparr>)
   \<and> usageStore_enqueue RecvStop dbRecA stoppedStore = Returns (Some ErrStopped, stoppedStore)"
  using enqueue_on_stopped_store_accepts
  by (simp add: stoppedStore_def queueCapacity_def usageStore_enqueue_def)

subsection \<open>\<^verbatim>\<open>ConfigureDatabase\<close>\<close>

lemma configsEqual_refl: "configsEqual (Some x) (Some x)"
  by (simp add: configsEqual_def)

lemma close_at_pointers:
  "close_at e a st = Returns st' \<Longrightarrow>
     currentDBConfig st' = currentDBConfig st \<and> currentUsageStore st' = currentUsageStore st
     \<and> allocated st' = allocated st"
  by (auto simp: close_at_def Let_def split: outcome.splits)

lemma ConfigureDatabase_config:
  "ConfigureDatabase Clean e opts st = Returns (None, st') \<Longrightarrow>
     configsEqual (currentDBConfig st') (Some (normalizeDatabaseOptions Clean opts))"
  by (auto simp: ConfigureDatabase_def Let_def configsEqual_refl
        dest!: close_at_pointers
        split: if_splits option.splits outcome.splits sum.splits prod.splits)

text \<open>
  C5: after \<^verbatim>\<open>ConfigureDatabase(o)\<close> has returned nil, a second \<^verbatim>\<open>ConfigureDatabase(o)\<close>
  returns nil and leaves the whole process state as it is: the current configuration,
  the pointer to the current store, the stores and the database files; and that
  whatever the outside world does during the second call.
\<close>

theorem ConfigureDatabase_idempotent:
  "ConfigureDatabase Clean e opts st = Returns (None, st') \<Longrightarrow>
     ConfigureDatabase Clean e' opts st' = Returns (None, st')"
  using ConfigureDatabase_config [of Clean e opts st st']
  by (simp add: ConfigureDatabase_def Let_def)

lemma Clean_usage_db: "Clean_posix ''usage.db'' = ''usage.db''"
  by code_simp

lemma normalize_opts0:
  "normalizeDatabaseOptions Clean_posix opts0
     = \<lparr>Enabled = True, Path = ''usage.db'', RetentionDays = 14\<rparr>"
  by (simp add: normalizeDatabaseOptions_def opts0_def Clean_usage_db Let_def)

lemma ConfigureDatabase_state0:
  "ConfigureDatabase Clean_posix env0 opts0 state0 = Returns (None, state1)"
  by (simp add: ConfigureDatabase_def normalize_opts0 configsEqual_def newUsageStore_def
        state0_def state1_def store0_def env0_def Let_def)

text \<open>C5 at a process in which nothing is configured and a database file exists.\<close>

theorem ConfigureDatabase_idempotent_witness:
  "ConfigureDatabase Clean_posix env0 opts0 state0 = Returns (None, state1)
   \<and> ConfigureDatabase Clean_posix env0 opts0 state1 = Returns (None, state1)"
  using ConfigureDatabase_idempotent [OF ConfigureDatabase_state0, of env0] ConfigureDatabase_state0
  by simp


subsection \<open>The daily aggregates\<close>

lemma usage_daily_upsert:
  "usage_daily (upsert_usage_daily rec d) k =
     (if k = daily_key_of rec then Some (upsert_row (usage_daily d k) rec) else usage_daily d k)"
  by (simp add: upsert_usage_daily_def Let_def)

lemma insert_cases:
  "usageStore_insert f rec d = (None, upsert_usage_daily rec (insert_usage_requests rec d))
   \<or> (\<exists>err. usageStore_insert f rec d = (Some err, d))"
  by (simp add: usageStore_insert_def Let_def)

lemma drain_daily:
  "usage_daily (drainRemaining fails n q d) k =
     foldl (\<lambda>row rec. Some (upsert_row row rec)) (usage_daily d k)
       (filter (\<lambda>rec. daily_key_of rec = k) (inserted fails n q d))"
proof (induction q arbitrary: n d)
  case Nil
  show ?case by simp
next
  case (Cons rec q)
  from insert_cases [of "fails n" rec d] show ?case
  proof
    assume ok: "usageStore_insert (fails n) rec d
                  = (None, upsert_usage_daily rec (insert_usage_requests rec d))"
    show ?thesis
      by (simp add: ok Cons.IH usage_daily_upsert)
  next
    assume "\<exists>err. usageStore_insert (fails n) rec d = (Some err, d)"
    then obtain err where "usageStore_insert (fails n) rec d = (Some err, d)" ..
    then show ?thesis
      by (simp add: Cons.IH)
  qed
qed


lemma foldl_upsert_counts:
  "\<exists>row. foldl (\<lambda>row rec. Some (upsert_row row rec)) (Some r0) rs = Some row
     \<and> total_requests row = total_requests r0 + int (length rs)
     \<and> failed_requests row = failed_requests r0 + int (length (filter dbRecord.Failed rs))
     \<and> daily_row.rate_limited row
         = daily_row.rate_limited r0 + int (length (filter RateLimited rs))
     \<and> daily_row.total_tokens row
         = daily_row.total_tokens r0
           + sum_list (map (\<lambda>rec. sint (TokenStats.TotalTokens (dbRecord.Tokens rec))) rs)"
proof (induction rs arbitrary: r0)
  case Nil
  show ?case by simp
next
  case (Cons rec rs)
  from Cons.IH [of "upsert_row (Some r0) rec"] show ?case
    by (auto simp: upsert_row_def on_conflict_update_def excluded_row_def boolToInt_def)
qed


text \<open>
  When the key already has a daily row, the counts of the inserted records are added to
  it.
\<close>

lemma daily_aggregate_counts_existing:
  assumes "usage_daily d k = Some r0"
    and "rs = filter (\<lambda>rec. daily_key_of rec = k) (inserted fails n q d)"
  shows "\<exists>row. usage_daily (drainRemaining fails n q d) k = Some row
     \<and> total_requests row = total_requests r0 + int (length rs)
     \<and> failed_requests row = failed_requests r0 + int (length (filter dbRecord.Failed rs))
     \<and> daily_row.rate_limited row
         = daily_row.rate_limited r0 + int (length (filter RateLimited rs))
     \<and> daily_row.total_tokens row
         = daily_row.total_tokens r0
           + sum_list (map (\<lambda>rec. sint (TokenStats.TotalTokens (dbRecord.Tokens rec))) rs)"
  using foldl_upsert_counts [of r0 rs] by (simp add: drain_daily assms)















subsection \<open>The credential label\<close>









subsection \<open>\<^verbatim>\<open>HandleUsage\<close> and the queue\<close>

text \<open>
  \<^verbatim>\<open>HandleUsage\<close> does nothing without a current store; with one, it leaves the state as
  it is (when \<^verbatim>\<open>enqueue\<close> returned the error) or appends the derived record to the queue
  of the current store.
\<close>

lemma HandleUsage_without_store:
  "currentUsageStore st = None \<Longrightarrow>
     databasePlugin_HandleUsage nd now pick ctx record st = Returns st"
  by (simp add: databasePlugin_HandleUsage_def)

lemma HandleUsage_enqueues:
  assumes "databasePlugin_HandleUsage nd now pick ctx record st = Returns st'"
    and "currentUsageStore st = Some a"
  shows "\<exists>status. resolveStatusCode ctx = Returns status
           \<and> (st' = st
               \<or> st' = st\<lparr>heap := (heap st)
                          (a := (heap st a)\<lparr>queue := queue (heap st a)
                                   @ [HandleUsage_dbRec nd now status record]\<rparr>)\<rparr>)"
  using assms
  by (auto simp: databasePlugin_HandleUsage_def usageStore_enqueue_def Let_def
        split: outcome.splits if_splits)

subsection \<open>Retention\<close>



lemma normalize_retention_pos:
  "0 < sint (RetentionDays (normalizeDatabaseOptions Clean opts))"
  by (simp add: normalizeDatabaseOptions_def Let_def)

















subsection \<open>The OTLP plugin: enabled flag and batch\<close>

lemma flushBatch_empty: "batch p = [] \<Longrightarrow> flushBatch e (p, w) = Returns (p, w)"
  by (simp add: flushBatch_def)

lemma flushBatch_enabled:
  "flushBatch e (p, w) = Returns (p', w') \<Longrightarrow> enabled p' = enabled p \<and> batch p' = []"
  by (auto simp: flushBatch_def Let_def split: if_splits outcome.splits)

lemma Close_enabled:
  "Close e (p, w) = Returns (p', w') \<Longrightarrow> enabled p' = enabled p \<and> batch p' = []"
  by (auto simp: Close_def Let_def dest!: flushBatch_enabled split: if_splits)

lemma Close_empty:
  "batch p = [] \<Longrightarrow> Close e (p, w) = Returns (p', w') \<Longrightarrow> w' = w"
  by (auto simp: Close_def Let_def flushBatch_def split: if_splits)

lemma HandleUsage_disabled:
  "\<not> enabled p \<Longrightarrow> OTLPPlugin_HandleUsage e ctx record (p, w) = Returns (p, w)"
  by (simp add: OTLPPlugin_HandleUsage_def)

lemma HandleUsage_plugin:
  "OTLPPlugin_HandleUsage e ctx record (p, w) = Returns (p', w') \<Longrightarrow> p' = p"
  by (auto simp: OTLPPlugin_HandleUsage_def split: if_splits outcome.splits)

lemma step_disabled:
  assumes "step e x (p, w) = Returns (p', w')" and "\<not> enabled p" and "x \<noteq> OpSetEnabled True"
  shows "\<not> enabled p' \<and> (batch p = [] \<longrightarrow> batch p' = [] \<and> w' = w)"
proof (cases x)
  case (OpHandleUsage ctx rcd)
  with assms show ?thesis
    by (simp add: HandleUsage_disabled)
next
  case (OpSetEnabled b)
  with assms show ?thesis
    by (auto simp: SetEnabled_def)
next
  case (OpSetEndpoint s)
  with assms show ?thesis
    by (auto simp: SetEndpoint_def)
next
  case OpPeriodicFlush
  with assms flushBatch_enabled [of e p w p' w'] show ?thesis
    by (auto simp: flushBatch_empty)
next
  case OpClose
  with assms Close_enabled [of e p w p' w'] Close_empty [of p e w p' w'] show ?thesis
    by auto
qed

lemma run_disabled:
  assumes "run e ops (p, w) = Returns (p', w')" and "\<not> enabled p"
    and "OpSetEnabled True \<notin> set ops"
  shows "\<not> enabled p' \<and> (batch p = [] \<longrightarrow> batch p' = [] \<and> w' = w)"
  using assms
proof (induction ops arbitrary: p w)
  case Nil
  then show ?case by simp
next
  case (Cons x ops)
  from Cons.prems(1) obtain p1 w1 where s: "step e x (p, w) = Returns (p1, w1)"
    and r: "run e ops (p1, w1) = Returns (p', w')"
    by (auto split: outcome.splits)
  from Cons.prems(3) have x: "x \<noteq> OpSetEnabled True" and ops: "OpSetEnabled True \<notin> set ops"
    by auto
  from step_disabled [OF s Cons.prems(2) x]
  have d: "\<not> enabled p1" and b: "batch p = [] \<longrightarrow> batch p1 = [] \<and> w1 = w"
    by auto
  from Cons.IH [OF r d ops] b show ?case
    by auto
qed

text \<open>
  C8: after \<^verbatim>\<open>SetEnabled(false)\<close> and any operations other than \<^verbatim>\<open>SetEnabled(true)\<close>, the
  plugin is disabled and \<^verbatim>\<open>HandleUsage\<close> returns at once, whatever the context and the
  record: it converts nothing (with the nil context the conversion would panic) and
  hands no request to the HTTP client. When the batch was empty, nothing was sent or
  logged during these operations either.
\<close>

theorem disabled_HandleUsage_sends_nothing:
  assumes "run e ops (SetEnabled False p, w) = Returns (p', w')"
    and "OpSetEnabled True \<notin> set ops"
  shows "\<not> IsEnabled p'
       \<and> OTLPPlugin_HandleUsage e ctx record (p', w') = Returns (p', w')
       \<and> (batch p = [] \<longrightarrow> w' = w)"
proof -
  have "\<not> enabled (SetEnabled False p)" and "batch (SetEnabled False p) = batch p"
    by (simp_all add: SetEnabled_def)
  with run_disabled [OF assms(1) _ assms(2)]
  have "\<not> enabled p'" and "batch p = [] \<longrightarrow> w' = w"
    by auto
  then show ?thesis
    by (simp add: IsEnabled_def HandleUsage_disabled)
qed

lemma step_batch:
  assumes "step e x (p, w) = Returns (p', w')" and "batch p = []"
  shows "batch p' = [] \<and> ((\<forall>ctx record. x \<noteq> OpHandleUsage ctx record) \<longrightarrow> w' = w)"
proof (cases x)
  case (OpHandleUsage ctx rcd)
  with assms HandleUsage_plugin [of e ctx rcd p w p' w'] show ?thesis
    by simp
next
  case (OpSetEnabled b)
  with assms show ?thesis
    by (auto simp: SetEnabled_def)
next
  case (OpSetEndpoint s)
  with assms show ?thesis
    by (auto simp: SetEndpoint_def)
next
  case OpPeriodicFlush
  with assms show ?thesis
    by (auto simp: flushBatch_empty)
next
  case OpClose
  with assms Close_enabled [of e p w p' w'] Close_empty [of p e w p' w'] show ?thesis
    by auto
qed

lemma run_batch:
  assumes "run e ops (p, w) = Returns (p', w')" and "batch p = []"
  shows "batch p' = [] \<and> ((\<forall>ctx record. OpHandleUsage ctx record \<notin> set ops) \<longrightarrow> w' = w)"
  using assms
proof (induction ops arbitrary: p w)
  case Nil
  then show ?case by simp
next
  case (Cons x ops)
  from Cons.prems(1) obtain p1 w1 where s: "step e x (p, w) = Returns (p1, w1)"
    and r: "run e ops (p1, w1) = Returns (p', w')"
    by (auto split: outcome.splits)
  from step_batch [OF s Cons.prems(2)]
  have b: "batch p1 = []" and w: "(\<forall>ctx record. x \<noteq> OpHandleUsage ctx record) \<longrightarrow> w1 = w"
    by auto
  from Cons.IH [OF r b] w show ?case
    by auto
qed

lemma NewOTLPPlugin_batch: "batch (NewOTLPPlugin e) = []"
  by (simp add: NewOTLPPlugin_def Let_def)

text \<open>
  C9: in every state a new plugin reaches through its operations the batch is empty. So
  a flush does nothing, \<^verbatim>\<open>Close\<close> (when it does not panic) sends nothing, and
  \<^verbatim>\<open>HandleUsage\<close> leaves the plugin as it is and, when the plugin is enabled, converts the
  record and sends the event at once; and operations among which there is no
  \<^verbatim>\<open>HandleUsage\<close> leave the network untouched.
\<close>

theorem batch_always_empty:
  assumes "run e ops (NewOTLPPlugin e, w) = Returns (p', w')"
  shows "batch p' = []
       \<and> flushBatch e (p', w') = Returns (p', w')
       \<and> (\<forall>q w''. Close e (p', w') = Returns (q, w'') \<longrightarrow> batch q = [] \<and> w'' = w')
       \<and> (\<forall>ctx record q w''.
             OTLPPlugin_HandleUsage e ctx record (p', w') = Returns (q, w'') \<longrightarrow>
               q = p'
               \<and> (IsEnabled p' \<longrightarrow>
                    (\<exists>event. convertRecordToEvent e ctx record = Returns event
                       \<and> w'' = logError (sendEvent e p' event w'))))
       \<and> ((\<forall>ctx record. OpHandleUsage ctx record \<notin> set ops) \<longrightarrow> w' = w)"
proof -
  from run_batch [OF assms NewOTLPPlugin_batch]
  have b: "batch p' = []"
    and n: "(\<forall>ctx record. OpHandleUsage ctx record \<notin> set ops) \<longrightarrow> w' = w"
    by auto
  have c: "batch q = [] \<and> w'' = w'" if "Close e (p', w') = Returns (q, w'')" for q w''
    using Close_enabled [OF that] Close_empty [OF b that] by simp
  have h: "q = p' \<and> (IsEnabled p' \<longrightarrow>
                    (\<exists>event. convertRecordToEvent e ctx rcd = Returns event
                       \<and> w'' = logError (sendEvent e p' event w')))"
    if "OTLPPlugin_HandleUsage e ctx rcd (p', w') = Returns (q, w'')" for ctx rcd q w''
    using that
    by (auto simp: OTLPPlugin_HandleUsage_def IsEnabled_def split: if_splits outcome.splits)
  from b n c h flushBatch_empty [OF b, of e w'] show ?thesis
    by blast
qed


text \<open>The third scenario of the specification, with \<^verbatim>\<open>TrimSpace\<close> on ASCII strings.\<close>

lemma TrimSpace_ascii_example:
  "TrimSpace_ascii ''  https://collector.example/v1/logs  '' = ''https://collector.example/v1/logs''"
  by (simp add: TrimSpace_ascii_def asciiSpace_def)

lemma SetEndpoint_example:
  "GetEndpoint (SetEndpoint otlpEnv0 ''  https://collector.example/v1/logs  '' p)
     = ''https://collector.example/v1/logs''"
  by (simp add: GetEndpoint_def SetEndpoint_def otlpEnv0_def TrimSpace_ascii_example)

lemma run_opsDisabled:
  "run otlpEnv0 opsDisabled (SetEnabled False (NewOTLPPlugin otlpEnv0), network0)
     = Returns (pluginDisabled, network0)"
  by (simp add: opsDisabled_def SetEnabled_def SetEndpoint_def NewOTLPPlugin_def
        flushBatch_def OTLPPlugin_HandleUsage_def pluginDisabled_def otlpEnv0_def
        TrimSpace_ascii_example Let_def)

text \<open>C8 at a new plugin that is disabled, given an endpoint and flushed.\<close>

theorem disabled_HandleUsage_sends_nothing_witness:
  "run otlpEnv0 opsDisabled (SetEnabled False (NewOTLPPlugin otlpEnv0), network0)
     = Returns (pluginDisabled, network0)
   \<and> OpSetEnabled True \<notin> set opsDisabled
   \<and> \<not> IsEnabled pluginDisabled
   \<and> OTLPPlugin_HandleUsage otlpEnv0 NilContext recordA (pluginDisabled, network0)
       = Returns (pluginDisabled, network0)"
proof -
  have n: "OpSetEnabled True \<notin> set opsDisabled"
    by (simp add: opsDisabled_def)
  from disabled_HandleUsage_sends_nothing [OF run_opsDisabled n, of NilContext recordA]
  show ?thesis
    using run_opsDisabled n by simp
qed

lemma run_opsSession:
  "run otlpEnv0 opsSession (NewOTLPPlugin otlpEnv0, network0) = Returns (pluginClosed, network1)"
  by (simp add: opsSession_def SetEnabled_def NewOTLPPlugin_def flushBatch_def Close_def
        OTLPPlugin_HandleUsage_def convertRecordToEvent_def sendEvent_def logError_def
        background_def pluginClosed_def network0_def network1_def requestA_def recordA_def
        otlpEnv0_def Let_def)

text \<open>C9 at a plugin that sends one record, is disabled, flushed, enabled and closed.\<close>

theorem batch_always_empty_witness:
  "run otlpEnv0 opsSession (NewOTLPPlugin otlpEnv0, network0) = Returns (pluginClosed, network1)
   \<and> batch pluginClosed = []
   \<and> flushBatch otlpEnv0 (pluginClosed, network1) = Returns (pluginClosed, network1)
   \<and> sent network1 = [requestA]"
proof -
  from batch_always_empty [OF run_opsSession]
  have "batch pluginClosed = []"
    and "flushBatch otlpEnv0 (pluginClosed, network1) = Returns (pluginClosed, network1)"
    by blast+
  then show ?thesis
    using run_opsSession by (simp add: network1_def)
qed

end
